theory Spec2Isabelle
  imports Complex_Main "HOL-Library.Sublist"
begin

section \<open>Text, characters and Python string primitives\<close>

text \<open>
  The extractor (\<^verbatim>\<open>src/backend/multi_provider_extractor.py\<close>) works on Python
  \<^verbatim>\<open>str\<close> values. A text is modelled as a \<^typ>\<open>string\<close> in which every
  \<^typ>\<open>char\<close> is one code point in the range 0..255 (Latin-1); the pound sign
  U+00A3 is therefore a single character. Character classes, \<^verbatim>\<open>lower()\<close> and
  \<^verbatim>\<open>strip()\<close> are written out for exactly this range.
\<close>

definition pound :: char where
  "pound = CHR 0xA3"

definition newline :: char where
  "newline = CHR 0x0A"

definition code :: "char \<Rightarrow> nat" where
  "code c = of_char c"

text \<open>\<^verbatim>\<open>\d\<close>: the decimal digits (in Latin-1 only 0-9 have category Nd).\<close>

definition is_digit :: "char \<Rightarrow> bool" where
  "is_digit c = (48 \<le> code c \<and> code c \<le> 57)"

text \<open>\<^verbatim>\<open>\s\<close> and the characters removed by \<^verbatim>\<open>strip()\<close>: Python's Unicode
  whitespace below 256, i.e. TAB..CR, FS..US, space, NEL and NBSP.\<close>

definition is_space :: "char \<Rightarrow> bool" where
  "is_space c = ((9 \<le> code c \<and> code c \<le> 13) \<or> (28 \<le> code c \<and> code c \<le> 32)
                  \<or> code c = 133 \<or> code c = 160)"

text \<open>\<^verbatim>\<open>[A-Z]\<close> and \<^verbatim>\<open>[a-z]\<close>.\<close>

definition is_upper :: "char \<Rightarrow> bool" where
  "is_upper c = (65 \<le> code c \<and> code c \<le> 90)"

definition is_lower :: "char \<Rightarrow> bool" where
  "is_lower c = (97 \<le> code c \<and> code c \<le> 122)"

text \<open>\<^verbatim>\<open>[\d,]\<close>, \<^verbatim>\<open>[\d.]\<close>, and the dot with and without \<^verbatim>\<open>re.DOTALL\<close>.\<close>

definition is_digit_comma :: "char \<Rightarrow> bool" where
  "is_digit_comma c = (is_digit c \<or> c = CHR '','')"

definition is_digit_dot :: "char \<Rightarrow> bool" where
  "is_digit_dot c = (is_digit c \<or> c = CHR ''.'')"

definition not_newline :: "char \<Rightarrow> bool" where
  "not_newline c = (c \<noteq> newline)"

definition any_char :: "char \<Rightarrow> bool" where
  "any_char c = True"

text \<open>\<^verbatim>\<open>str.lower()\<close> on one code point below 256: A-Z and the accented capitals
  U+00C0..U+00DE (without the multiplication sign U+00D7) move up by 32.\<close>

definition lower_char :: "char \<Rightarrow> char" where
  "lower_char c =
     (if (65 \<le> code c \<and> code c \<le> 90) \<or> (192 \<le> code c \<and> code c \<le> 222 \<and> code c \<noteq> 215)
      then char_of (code c + 32) else c)"

definition lower :: "string \<Rightarrow> string" where
  "lower s = map lower_char s"

definition strip :: "string \<Rightarrow> string" where
  "strip s = rev (dropWhile is_space (rev (dropWhile is_space s)))"

text \<open>\<^verbatim>\<open>s.replace(',', '')\<close>.\<close>

definition remove_commas :: "string \<Rightarrow> string" where
  "remove_commas s = filter (\<lambda>c. c \<noteq> CHR '','') s"


section \<open>Python values, dictionaries and exceptions\<close>

datatype error = ValueError | KeyError | TypeError | AttributeError | IndexError
  | ZeroDivisionError

text \<open>
  The JSON-like values the program builds. Numbers (Python \<^verbatim>\<open>int\<close> 0 and
  \<^verbatim>\<open>float\<close>) are modelled by the rational they denote; rounding of binary
  floating point is not modelled. A \<^verbatim>\<open>dict\<close> is an association list in insertion
  order.
\<close>

datatype pyval =
    PNone
  | PNum rat
  | PStr string
  | PList "pyval list"
  | PDict "(string \<times> pyval) list"

type_synonym dict = "(string \<times> pyval) list"

definition ebind :: "error + 'a \<Rightarrow> ('a \<Rightarrow> error + 'b) \<Rightarrow> error + 'b" where
  "ebind m f = (case m of Inl e \<Rightarrow> Inl e | Inr x \<Rightarrow> f x)"

text \<open>\<^verbatim>\<open>d[k]\<close> (raises KeyError on a missing key) and \<^verbatim>\<open>d[k] = v\<close> (an existing key
  keeps its position, a new key goes last).\<close>

definition get_item :: "dict \<Rightarrow> string \<Rightarrow> error + pyval" where
  "get_item d k = (case map_of d k of None \<Rightarrow> Inl KeyError | Some v \<Rightarrow> Inr v)"

fun set_item :: "string \<Rightarrow> pyval \<Rightarrow> dict \<Rightarrow> dict" where
  "set_item k v [] = [(k, v)]"
| "set_item k v ((k', v') # d) = (if k' = k then (k, v) # d else (k', v') # set_item k v d)"

text \<open>\<^verbatim>\<open>d[k].append(v)\<close>: the list object held under \<^verbatim>\<open>k\<close> grows by one element.\<close>

definition append_item :: "string \<Rightarrow> pyval \<Rightarrow> dict \<Rightarrow> error + dict" where
  "append_item k v d =
     ebind (get_item d k) (\<lambda>x. case x of
         PList xs \<Rightarrow> Inr (set_item k (PList (xs @ [v])) d)
       | _ \<Rightarrow> Inl AttributeError)"

text \<open>\<^verbatim>\<open>d[k] += v\<close> for a number \<^verbatim>\<open>v\<close>.\<close>

definition add_item :: "string \<Rightarrow> rat \<Rightarrow> dict \<Rightarrow> error + dict" where
  "add_item k v d =
     ebind (get_item d k) (\<lambda>x. case x of
         PNum n \<Rightarrow> Inr (set_item k (PNum (n + v)) d)
       | _ \<Rightarrow> Inl TypeError)"

text \<open>\<^verbatim>\<open>d[k][k2] = v\<close> where \<^verbatim>\<open>d[k]\<close> is a dict.\<close>

definition set_sub_item :: "string \<Rightarrow> string \<Rightarrow> pyval \<Rightarrow> dict \<Rightarrow> error + dict" where
  "set_sub_item k k2 v d =
     ebind (get_item d k) (\<lambda>x. case x of
         PDict sub \<Rightarrow> Inr (set_item k (PDict (set_item k2 v sub)) d)
       | _ \<Rightarrow> Inl TypeError)"

text \<open>Truthiness of a value in \<^verbatim>\<open>if x:\<close>.\<close>

fun truthy :: "pyval \<Rightarrow> bool" where
  "truthy PNone = False"
| "truthy (PNum n) = (n \<noteq> 0)"
| "truthy (PStr s) = (s \<noteq> [])"
| "truthy (PList xs) = (xs \<noteq> [])"
| "truthy (PDict d) = (d \<noteq> [])"

text \<open>\<^verbatim>\<open>x[k]\<close> for a value that should be a dict, \<^verbatim>\<open>xs[0]\<close> for one that should be
  a list, and the number held by a value that takes part in arithmetic.\<close>

definition item_of :: "pyval \<Rightarrow> string \<Rightarrow> error + pyval" where
  "item_of x k = (case x of PDict d \<Rightarrow> get_item d k | _ \<Rightarrow> Inl TypeError)"

definition first_of :: "pyval \<Rightarrow> error + pyval" where
  "first_of x = (case x of
       PList [] \<Rightarrow> Inl IndexError
     | PList (y # ys) \<Rightarrow> Inr y
     | PDict d \<Rightarrow> Inl KeyError
     | _ \<Rightarrow> Inl TypeError)"

definition num_of :: "pyval \<Rightarrow> error + rat" where
  "num_of x = (case x of PNum n \<Rightarrow> Inr n | _ \<Rightarrow> Inl TypeError)"

text \<open>\<^verbatim>\<open>sum(acc[k] for acc in xs)\<close>: a left-to-right accumulation starting from 0.\<close>

fun sum_items :: "string \<Rightarrow> pyval list \<Rightarrow> rat \<Rightarrow> error + rat" where
  "sum_items k [] acc = Inr acc"
| "sum_items k (x # xs) acc =
     ebind (item_of x k) (\<lambda>v. ebind (num_of v) (\<lambda>n. sum_items k xs (acc + n)))"

definition py_div :: "rat \<Rightarrow> nat \<Rightarrow> error + rat" where
  "py_div a n = (if n = 0 then Inl ZeroDivisionError else Inr (a / of_nat n))"


section \<open>\<^verbatim>\<open>float()\<close> on captured text\<close>

fun digits_value :: "string \<Rightarrow> nat \<Rightarrow> nat" where
  "digits_value [] acc = acc"
| "digits_value (c # cs) acc = digits_value cs (10 * acc + (code c - 48))"

text \<open>
  \<^verbatim>\<open>float(s)\<close> for the strings the patterns below can capture: ASCII digits and
  dots (commas are removed before the call). Such a string is a number exactly when
  it has at most one dot and at least one digit; otherwise Python raises ValueError.
  Signs, exponents, surrounding blanks, underscores and the words inf/nan, which
  \<^verbatim>\<open>float\<close> also reads, never occur in a capture of \<^verbatim>\<open>[\d,]+\.\d{2}\<close> or
  \<^verbatim>\<open>[\d.]+\<close>; here any character other than a digit or the one dot gives ValueError.
\<close>

definition py_float :: "string \<Rightarrow> error + rat" where
  "py_float s =
     (let ip = takeWhile (\<lambda>c. c \<noteq> CHR ''.'') s;
          rest = dropWhile (\<lambda>c. c \<noteq> CHR ''.'') s
      in if rest = [] then
           (if ip \<noteq> [] \<and> list_all is_digit ip
            then Inr (of_nat (digits_value ip 0)) else Inl ValueError)
         else
           (let fp = tl rest
            in if list_all is_digit ip \<and> list_all is_digit fp \<and> (ip \<noteq> [] \<or> fp \<noteq> [])
               then Inr (of_nat (digits_value ip 0)
                         + of_nat (digits_value fp 0) / 10 ^ length fp)
               else Inl ValueError))"


section \<open>Regular expressions with Python's backtracking order\<close>

text \<open>
  The patterns of the program use literals, character classes, sequence, ordered
  alternation, greedy and lazy repetition, capturing groups, positive lookahead and
  \<^verbatim>\<open>$\<close> (with and without \<^verbatim>\<open>re.MULTILINE\<close>). \<open>rmatch r s c\<close> lists, in the order
  in which a backtracking matcher tries them, every way \<open>r\<close> can match a prefix of
  \<open>s\<close>: each result is the unread rest of \<open>s\<close> together with the captures so far.
  The first element is the match Python reports.
\<close>

datatype greed = Greedy | Lazy

datatype re =
    Lit string
  | Cls "char \<Rightarrow> bool"
  | Seq re re
  | Alt re re
  | Star greed re
  | Grp nat re
  | Look re
  | Eos
  | Eol

type_synonym caps = "(nat \<times> string) list"

function (sequential) rmatch :: "re \<Rightarrow> string \<Rightarrow> caps \<Rightarrow> (string \<times> caps) list" where
  "rmatch (Lit l) s c = (if prefix l s then [(drop (length l) s, c)] else [])"
| "rmatch (Cls p) s c = (case s of [] \<Rightarrow> [] | x # xs \<Rightarrow> if p x then [(xs, c)] else [])"
| "rmatch (Seq a b) s c = concat (map (\<lambda>(s', c'). rmatch b s' c') (rmatch a s c))"
| "rmatch (Alt a b) s c = rmatch a s c @ rmatch b s c"
| "rmatch (Star g r) s c =
     (let more = concat (map (\<lambda>(s', c').
                   if length s' < length s then rmatch (Star g r) s' c' else [])
                 (rmatch r s c))
      in if g = Greedy then more @ [(s, c)] else (s, c) # more)"
| "rmatch (Grp n r) s c =
     map (\<lambda>(s', c'). (s', (n, take (length s - length s') s) # c')) (rmatch r s c)"
| "rmatch (Look r) s c = (if rmatch r s c = [] then [] else [(s, c)])"
| "rmatch Eos s c = (if s = [] \<or> s = [newline] then [(s, c)] else [])"
| "rmatch Eol s c = (if s = [] \<or> hd s = newline then [(s, c)] else [])"
  by pat_completeness auto
termination
  by (relation "measures [\<lambda>(r, s, c). size r, \<lambda>(r, s, c). length s]") auto

text \<open>\<^verbatim>\<open>X+\<close> is \<^verbatim>\<open>XX*\<close>.\<close>

definition Rep1 :: "greed \<Rightarrow> re \<Rightarrow> re" where
  "Rep1 g r = Seq r (Star g r)"

text \<open>A match object: \<^verbatim>\<open>group(0)\<close> and the numbered groups that took part.\<close>

record rematch =
  whole :: string
  groups :: caps

text \<open>\<^verbatim>\<open>re.search\<close>: the first match at the leftmost start position, the empty
  suffix included.\<close>

fun re_search :: "re \<Rightarrow> string \<Rightarrow> rematch option" where
  "re_search r [] = (case rmatch r [] [] of
       [] \<Rightarrow> None
     | (rest, c) # _ \<Rightarrow> Some \<lparr>whole = [], groups = c\<rparr>)"
| "re_search r (x # xs) = (case rmatch r (x # xs) [] of
       [] \<Rightarrow> re_search r xs
     | (rest, c) # _ \<Rightarrow>
         Some \<lparr>whole = take (length (x # xs) - length rest) (x # xs), groups = c\<rparr>)"

text \<open>\<^verbatim>\<open>m.group(1)\<close> is \<^verbatim>\<open>None\<close> for a group that took no part in the match.\<close>

definition group1 :: "rematch \<Rightarrow> pyval" where
  "group1 m = (case map_of (groups m) 1 of None \<Rightarrow> PNone | Some g \<Rightarrow> PStr g)"

text \<open>\<^verbatim>\<open>float(m.group(1).replace(',', ''))\<close> and \<^verbatim>\<open>float(m.group(1))\<close>.\<close>

definition float_amount :: "rematch \<Rightarrow> error + rat" where
  "float_amount m = (case group1 m of
       PStr g \<Rightarrow> py_float (remove_commas g)
     | _ \<Rightarrow> Inl AttributeError)"

definition float_group :: "rematch \<Rightarrow> error + rat" where
  "float_group m = (case group1 m of
       PStr g \<Rightarrow> py_float g
     | _ \<Rightarrow> Inl TypeError)"

text \<open>\<^verbatim>\<open>float(...) if m else 0\<close>.\<close>

definition amount_or_zero :: "rematch option \<Rightarrow> error + rat" where
  "amount_or_zero mo = (case mo of None \<Rightarrow> Inr 0 | Some m \<Rightarrow> float_amount m)"

definition float_or_zero :: "rematch option \<Rightarrow> error + rat" where
  "float_or_zero mo = (case mo of None \<Rightarrow> Inr 0 | Some m \<Rightarrow> float_group m)"


section \<open>The patterns of the program\<close>

fun seqs :: "re list \<Rightarrow> re" where
  "seqs [] = Lit []"
| "seqs [r] = r"
| "seqs (r # rs) = Seq r (seqs rs)"

text \<open>\<^verbatim>\<open>\s+\<close>, \<^verbatim>\<open>\s*\<close>, \<^verbatim>\<open>.*?\<close> under \<^verbatim>\<open>re.DOTALL\<close>, \<^verbatim>\<open>[A-Z][a-z]+\<close>,
  \<^verbatim>\<open>[\d,]+\.\d{2}\<close> and \<^verbatim>\<open>[\d.]+\<close>.\<close>

definition spaces1 :: re where
  "spaces1 = Rep1 Greedy (Cls is_space)"

definition spaces0 :: re where
  "spaces0 = Star Greedy (Cls is_space)"

definition lazy_any :: re where
  "lazy_any = Star Lazy (Cls any_char)"

definition cap_word :: re where
  "cap_word = Seq (Cls is_upper) (Rep1 Greedy (Cls is_lower))"

definition amount_re :: re where
  "amount_re = seqs [Rep1 Greedy (Cls is_digit_comma), Lit ''.'', Cls is_digit, Cls is_digit]"

definition percent_re :: re where
  "percent_re = Rep1 Greedy (Cls is_digit_dot)"

text \<open>Line 36: \<^verbatim>\<open>(Mr|Mrs|Ms)\s+([A-Z][a-z]+(?:\s+[A-Z][a-z]+)+)\<close>.\<close>

definition aj_client_re :: re where
  "aj_client_re = seqs
     [Grp 1 (Alt (Lit ''Mr'') (Alt (Lit ''Mrs'') (Lit ''Ms''))),
      spaces1,
      Grp 2 (Seq cap_word (Rep1 Greedy (Seq spaces1 cap_word)))]"

text \<open>Line 41: \<^verbatim>\<open>(SCC\d+)\<close>.\<close>

definition aj_acc_re :: re where
  "aj_acc_re = Grp 1 (Seq (Lit ''SCC'') (Rep1 Greedy (Cls is_digit)))"

text \<open>Line 45, with \<^verbatim>\<open>re.DOTALL\<close>:
  \<^verbatim>\<open>ISA - Performance summary.*?(?=ISA - Performance Analysis|ISA - Holdings|$)\<close>.\<close>

definition aj_isa_heading :: string where
  "aj_isa_heading = ''ISA - Performance summary''"

definition aj_isa_re :: re where
  "aj_isa_re = seqs
     [Lit aj_isa_heading, lazy_any,
      Look (Alt (Lit ''ISA - Performance Analysis'') (Alt (Lit ''ISA - Holdings'') Eos))]"

text \<open>Line 50: \<^verbatim>\<open>Total\s+-\s+[\d,]+\.\d{2}\s+-\s+([\d,]+\.\d{2})\<close>.\<close>

definition aj_holdings_re :: re where
  "aj_holdings_re = seqs
     [Lit ''Total'', spaces1, Lit ''-'', spaces1, amount_re, spaces1, Lit ''-'', spaces1,
      Grp 1 amount_re]"

text \<open>Line 55: \<^verbatim>\<open>\<pounds>([\d,]+\.\d{2})\s+[\d.]+%\<close>.\<close>

definition aj_value_re :: re where
  "aj_value_re = seqs [Lit [pound], Grp 1 amount_re, spaces1, percent_re, Lit ''%'']"

text \<open>Line 59, without \<^verbatim>\<open>re.DOTALL\<close>: \<^verbatim>\<open>Cash in.*?\<pounds>([\d,]+\.\d{2})\<close>.\<close>

definition aj_contrib_re :: re where
  "aj_contrib_re = seqs
     [Lit ''Cash in'', Star Lazy (Cls not_newline), Lit [pound], Grp 1 amount_re]"

text \<open>Line 63, with \<^verbatim>\<open>re.MULTILINE\<close>: \<^verbatim>\<open>([\d.]+)%\s*$\<close>.\<close>

definition aj_perf_re :: re where
  "aj_perf_re = seqs [Grp 1 percent_re, Lit ''%'', spaces0, Eol]"

text \<open>Line 65, with \<^verbatim>\<open>re.DOTALL\<close>: \<^verbatim>\<open>Time-weighted return.*?([\d.]+)%\<close>.\<close>

definition aj_twr_re :: re where
  "aj_twr_re = seqs [Lit ''Time-weighted return'', lazy_any, Grp 1 percent_re, Lit ''%'']"

text \<open>Lines 69 and 71, with \<^verbatim>\<open>re.DOTALL\<close>: \<^verbatim>\<open>Total.*?Change.*?([\d,]+\.\d{2})\<close>
  and \<^verbatim>\<open>Change \(\<pounds>\).*?([\d,]+\.\d{2})\<close>.\<close>

definition aj_change_re :: re where
  "aj_change_re = seqs [Lit ''Total'', lazy_any, Lit ''Change'', lazy_any, Grp 1 amount_re]"

definition aj_change2_re :: re where
  "aj_change2_re = seqs [Lit (''Change ('' @ [pound] @ '')''), lazy_any, Grp 1 amount_re]"

text \<open>Line 88, with \<^verbatim>\<open>re.DOTALL\<close>:
  \<^verbatim>\<open>SIPP - Performance summary.*?(?=SIPP - Performance Analysis|SIPP - Holdings|$)\<close>.\<close>

definition aj_sipp_re :: re where
  "aj_sipp_re = seqs
     [Lit ''SIPP - Performance summary'', lazy_any,
      Look (Alt (Lit ''SIPP - Performance Analysis'') (Alt (Lit ''SIPP - Holdings'') Eos))]"

text \<open>Line 110:
  \<^verbatim>\<open>PREPARED FOR\s+((?:Ms\.|Mr\.|Mrs\.)\s+[A-Z][a-z]+(?:\s+[A-Z][a-z]+)*)\<close>.\<close>

definition ms_client_re :: re where
  "ms_client_re = seqs
     [Lit ''PREPARED FOR'', spaces1,
      Grp 1 (seqs [Alt (Lit ''Ms.'') (Alt (Lit ''Mr.'') (Lit ''Mrs.'')), spaces1, cap_word,
                   Star Greedy (Seq spaces1 cap_word)])]"

text \<open>Lines 115 and 138, with \<^verbatim>\<open>re.DOTALL\<close>:
  \<^verbatim>\<open>Investment held:\s*ISA.*?(?=Investment held:|$)\<close> and the same for SIPP.\<close>

definition ms_span_re :: "string \<Rightarrow> re" where
  "ms_span_re kind = seqs
     [Lit ''Investment held:'', spaces0, Lit kind, lazy_any,
      Look (Alt (Lit ''Investment held:'') Eos)]"

text \<open>Lines 119-122 and 142-145: \<^verbatim>\<open>Portfolio Valuation\s*\<pounds>([\d,]+\.\d{2})\<close>,
  \<^verbatim>\<open>Total In/Out\s*\<pounds>([\d,]+\.\d{2})\<close>, \<^verbatim>\<open>Total Return\s*\<pounds>([\d,]+\.\d{2})\<close> and
  \<^verbatim>\<open>Portfolio % Returns\s*([\d.]+)%\<close>.\<close>

definition ms_val_re :: re where
  "ms_val_re = seqs [Lit ''Portfolio Valuation'', spaces0, Lit [pound], Grp 1 amount_re]"

definition ms_contrib_re :: re where
  "ms_contrib_re = seqs [Lit ''Total In/Out'', spaces0, Lit [pound], Grp 1 amount_re]"

definition ms_return_re :: re where
  "ms_return_re = seqs [Lit ''Total Return'', spaces0, Lit [pound], Grp 1 amount_re]"

definition ms_perf_re :: re where
  "ms_perf_re = seqs [Lit ''Portfolio % Returns'', spaces0, Grp 1 percent_re, Lit ''%'']"


section \<open>The program\<close>

datatype provider = AJ_BELL | MORNINGSTAR | CASHFLOW | UNKNOWN

text \<open>\<^verbatim>\<open>detect_provider\<close>, lines 11-22; Python's \<^verbatim>\<open>a in b\<close> on strings is
  \<^const>\<open>sublist\<close>.\<close>

definition detect_provider :: "string \<Rightarrow> provider" where
  "detect_provider text =
     (let text_lower = lower text
      in if sublist ''aj bell'' text_lower \<or> sublist ''ajbell'' text_lower then AJ_BELL
         else if sublist ''morningstar'' text_lower then MORNINGSTAR
         else if sublist ''cashflow'' text_lower \<or> sublist ''574611'' text_lower then CASHFLOW
         else UNKNOWN)"

subsection \<open>\<^verbatim>\<open>extract_aj_bell\<close>, lines 24-96\<close>

text \<open>Lines 50-56: \<^verbatim>\<open>value\<close>.\<close>

definition aj_value :: "string \<Rightarrow> string \<Rightarrow> error + rat" where
  "aj_value text isa_text =
     (let holdings_match = re_search aj_holdings_re text
      in case holdings_match of
           Some m \<Rightarrow> float_amount m
         | None \<Rightarrow> (let value_match = re_search aj_value_re isa_text
                    in amount_or_zero value_match))"

text \<open>Lines 59-60: \<^verbatim>\<open>contributions\<close>.\<close>

definition aj_contributions :: "string \<Rightarrow> error + rat" where
  "aj_contributions text =
     (let contrib_match = re_search aj_contrib_re text
      in amount_or_zero contrib_match)"

text \<open>Lines 63-66: \<^verbatim>\<open>performance\<close>.\<close>

definition aj_performance :: "string \<Rightarrow> string \<Rightarrow> error + rat" where
  "aj_performance text isa_text =
     (let perf_match = re_search aj_perf_re isa_text;
          perf_match = (case perf_match of
                          None \<Rightarrow> re_search aj_twr_re text
                        | Some m \<Rightarrow> Some m)
      in float_or_zero perf_match)"

text \<open>Lines 69-72: \<^verbatim>\<open>return_amount\<close>.\<close>

definition aj_return_amount :: "string \<Rightarrow> error + rat" where
  "aj_return_amount text =
     (let change_match = re_search aj_change_re text;
          change_match = (case change_match of
                            None \<Rightarrow> re_search aj_change2_re text
                          | Some m \<Rightarrow> Some m)
      in amount_or_zero change_match)"

text \<open>Lines 47-85: the body of \<^verbatim>\<open>if isa_section:\<close>.\<close>

definition aj_isa_block :: "string \<Rightarrow> string \<Rightarrow> pyval \<Rightarrow> dict \<Rightarrow> error + dict" where
  "aj_isa_block text isa_text account_number data =
     ebind (aj_value text isa_text) (\<lambda>value.
     ebind (aj_contributions text) (\<lambda>contributions.
     ebind (aj_performance text isa_text) (\<lambda>performance.
     ebind (aj_return_amount text) (\<lambda>return_amount.
       let account = PDict
             [(''type'', PStr ''ISA''),
              (''provider'', PStr ''AJ Bell''),
              (''account_number'', account_number),
              (''value'', PNum value),
              (''contributions'', PNum contributions),
              (''return'', PNum return_amount),
              (''performance'', PNum performance)]
       in ebind (append_item ''accounts'' account data) (\<lambda>data.
          add_item ''total_value'' value data)))))"

text \<open>Lines 88-91: the SIPP section is searched for and nothing is done with it.\<close>

definition aj_sipp_block :: "string \<Rightarrow> dict \<Rightarrow> dict" where
  "aj_sipp_block text data =
     (let sipp_section = re_search aj_sipp_re text
      in case sipp_section of Some m \<Rightarrow> data | None \<Rightarrow> data)"

text \<open>Lines 93-94.\<close>

definition aj_summary :: "dict \<Rightarrow> error + dict" where
  "aj_summary data =
     ebind (get_item data ''accounts'') (\<lambda>accs.
       if truthy accs then
         ebind (first_of accs) (\<lambda>a.
         ebind (item_of a ''performance'') (\<lambda>p.
           set_sub_item ''performance'' ''oneYearReturn'' p data))
       else Inr data)"

definition extract_aj_bell :: "string \<Rightarrow> error + dict" where
  "extract_aj_bell text =
     (let data = [(''provider'', PStr ''AJ Bell''),
                  (''client_name'', PNone),
                  (''accounts'', PList []),
                  (''total_value'', PNum 0),
                  (''performance'', PDict [])];
          client_match = re_search aj_client_re text;
          data = (case client_match of
                    Some m \<Rightarrow> set_item ''client_name'' (PStr (strip (whole m))) data
                  | None \<Rightarrow> data);
          acc_match = re_search aj_acc_re text;
          account_number = (case acc_match of Some m \<Rightarrow> group1 m | None \<Rightarrow> PNone);
          isa_section = re_search aj_isa_re text
      in ebind (case isa_section of
                  Some m \<Rightarrow> aj_isa_block text (whole m) account_number data
                | None \<Rightarrow> Inr data) (\<lambda>data.
         aj_summary (aj_sipp_block text data)))"

subsection \<open>\<^verbatim>\<open>extract_morningstar\<close>, lines 98-164\<close>

text \<open>
  Lines 115-135 (ISA) and 138-158 (SIPP) are the same statements up to the wrapper
  kind, which appears in the span pattern and in the \<^verbatim>\<open>type\<close> of the account; the
  block is written once with the kind as a parameter. The account is only built, and
  the captures only converted, under \<^verbatim>\<open>if val_match:\<close>.
\<close>

definition ms_section_block :: "string \<Rightarrow> string \<Rightarrow> dict \<Rightarrow> error + dict" where
  "ms_section_block kind text data =
     (case re_search (ms_span_re kind) text of
        None \<Rightarrow> Inr data
      | Some section \<Rightarrow>
         (let section_text = whole section;
              val_match = re_search ms_val_re section_text;
              contrib_match = re_search ms_contrib_re section_text;
              return_match = re_search ms_return_re section_text;
              perf_match = re_search ms_perf_re section_text
          in case val_match of
               None \<Rightarrow> Inr data
             | Some vm \<Rightarrow>
                 ebind (float_amount vm) (\<lambda>value.
                 ebind (amount_or_zero contrib_match) (\<lambda>contributions.
                 ebind (amount_or_zero return_match) (\<lambda>return_amount.
                 ebind (float_or_zero perf_match) (\<lambda>performance.
                   let account = PDict
                         [(''type'', PStr kind),
                          (''provider'', PStr ''Morningstar''),
                          (''value'', PNum value),
                          (''contributions'', PNum contributions),
                          (''return'', PNum return_amount),
                          (''performance'', PNum performance)]
                   in ebind (append_item ''accounts'' account data) (\<lambda>data.
                      ebind (item_of account ''value'') (\<lambda>v.
                      ebind (num_of v) (\<lambda>n.
                        add_item ''total_value'' n data)))))))))"

text \<open>Lines 160-162.\<close>

definition ms_summary :: "dict \<Rightarrow> error + dict" where
  "ms_summary data =
     ebind (get_item data ''accounts'') (\<lambda>accs.
       if truthy accs then
         (case accs of
            PList xs \<Rightarrow>
              ebind (sum_items ''performance'' xs 0) (\<lambda>total.
              ebind (py_div total (length xs)) (\<lambda>avg_perf.
                set_sub_item ''performance'' ''oneYearReturn'' (PNum avg_perf) data))
          | _ \<Rightarrow> Inl TypeError)
       else Inr data)"

definition extract_morningstar :: "string \<Rightarrow> error + dict" where
  "extract_morningstar text =
     (let data = [(''provider'', PStr ''Morningstar''),
                  (''client_name'', PNone),
                  (''accounts'', PList []),
                  (''total_value'', PNum 0),
                  (''performance'', PDict [])];
          client_match = re_search ms_client_re text
      in ebind (case client_match of
                  Some m \<Rightarrow> (case group1 m of
                               PStr g \<Rightarrow> Inr (set_item ''client_name'' (PStr (strip g)) data)
                             | _ \<Rightarrow> Inl AttributeError)
                | None \<Rightarrow> Inr data) (\<lambda>data.
         ebind (ms_section_block ''ISA'' text data) (\<lambda>data.
         ebind (ms_section_block ''SIPP'' text data) (\<lambda>data.
           ms_summary data))))"

subsection \<open>\<^verbatim>\<open>main\<close>, lines 166-191\<close>

definition fallback_record :: dict where
  "fallback_record =
     [(''provider'', PStr ''Unknown''),
      (''error'', PStr ''Provider not recognized''),
      (''accounts'', PList []),
      (''total_value'', PNum 0)]"

text \<open>The record that \<^verbatim>\<open>main\<close> serialises; reading standard input, the diagnostic
  line and \<^verbatim>\<open>json.dumps\<close> are outside the model.\<close>

definition main :: "string \<Rightarrow> error + dict" where
  "main text =
     (let provider = detect_provider text
      in if provider = AJ_BELL then extract_aj_bell text
         else if provider = MORNINGSTAR then extract_morningstar text
         else Inr fallback_record)"


section \<open>Reading a result\<close>

text \<open>The accounts of a record, a field of an account (\<open>None\<close> when the key is not
  there) and the keys of an account.\<close>

definition accounts_of :: "dict \<Rightarrow> pyval list" where
  "accounts_of d = (case map_of d ''accounts'' of Some (PList xs) \<Rightarrow> xs | _ \<Rightarrow> [])"

definition field :: "string \<Rightarrow> pyval \<Rightarrow> pyval option" where
  "field k a = (case a of PDict f \<Rightarrow> map_of f k | _ \<Rightarrow> None)"

definition keys_of :: "pyval \<Rightarrow> string list" where
  "keys_of a = (case a of PDict f \<Rightarrow> map fst f | _ \<Rightarrow> [])"

text \<open>The record an extractor returns, by its five entries, and the two kinds of
  account.\<close>

definition record_of :: "string \<Rightarrow> pyval \<Rightarrow> pyval list \<Rightarrow> rat \<Rightarrow> dict \<Rightarrow> dict" where
  "record_of prov cn accs tv perf =
     [(''provider'', PStr prov),
      (''client_name'', cn),
      (''accounts'', PList accs),
      (''total_value'', PNum tv),
      (''performance'', PDict perf)]"

definition aj_account :: "pyval \<Rightarrow> rat \<Rightarrow> rat \<Rightarrow> rat \<Rightarrow> rat \<Rightarrow> pyval" where
  "aj_account an v c r p = PDict
     [(''type'', PStr ''ISA''),
      (''provider'', PStr ''AJ Bell''),
      (''account_number'', an),
      (''value'', PNum v),
      (''contributions'', PNum c),
      (''return'', PNum r),
      (''performance'', PNum p)]"

definition ms_account :: "string \<Rightarrow> rat \<Rightarrow> rat \<Rightarrow> rat \<Rightarrow> rat \<Rightarrow> pyval" where
  "ms_account kind v c r p = PDict
     [(''type'', PStr kind),
      (''provider'', PStr ''Morningstar''),
      (''value'', PNum v),
      (''contributions'', PNum c),
      (''return'', PNum r),
      (''performance'', PNum p)]"

text \<open>Lines 36-42 and 110-112 read on their own.\<close>

definition aj_client_name :: "string \<Rightarrow> pyval" where
  "aj_client_name text = (case re_search aj_client_re text of
       Some m \<Rightarrow> PStr (strip (whole m))
     | None \<Rightarrow> PNone)"

definition aj_account_number :: "string \<Rightarrow> pyval" where
  "aj_account_number text = (case re_search aj_acc_re text of
       Some m \<Rightarrow> group1 m
     | None \<Rightarrow> PNone)"

definition ms_client_name :: "string \<Rightarrow> error + pyval" where
  "ms_client_name text = (case re_search ms_client_re text of
       Some m \<Rightarrow> (case group1 m of PStr g \<Rightarrow> Inr (PStr (strip g)) | _ \<Rightarrow> Inl AttributeError)
     | None \<Rightarrow> Inr PNone)"

text \<open>The four numbers of a Morningstar wrapper: \<open>None\<close> when the span or the
  valuation is missing.\<close>

definition ms_fields :: "string \<Rightarrow> string \<Rightarrow> error + (rat \<times> rat \<times> rat \<times> rat) option" where
  "ms_fields kind text =
     (case re_search (ms_span_re kind) text of
        None \<Rightarrow> Inr None
      | Some section \<Rightarrow>
         (case re_search ms_val_re (whole section) of
            None \<Rightarrow> Inr None
          | Some vm \<Rightarrow>
              ebind (float_amount vm) (\<lambda>v.
              ebind (amount_or_zero (re_search ms_contrib_re (whole section))) (\<lambda>c.
              ebind (amount_or_zero (re_search ms_return_re (whole section))) (\<lambda>r.
              ebind (float_or_zero (re_search ms_perf_re (whole section))) (\<lambda>p.
                Inr (Some (v, c, r, p))))))))"

text \<open>Whether the valuation pattern matched within the span of a wrapper kind.\<close>

definition valuation_matched :: "string \<Rightarrow> string \<Rightarrow> bool" where
  "valuation_matched kind text =
     (case re_search (ms_span_re kind) text of
        None \<Rightarrow> False
      | Some section \<Rightarrow> re_search ms_val_re (whole section) \<noteq> None)"


section \<open>Notions of the specification\<close>

text \<open>Case-insensitive containment, as the specification words it: some stretch of the
  text is the keyword once lowered.\<close>

definition contains_ci :: "string \<Rightarrow> string \<Rightarrow> bool" where
  "contains_ci text kw = (\<exists>pre mid post. text = pre @ mid @ post \<and> lower mid = kw)"

text \<open>What one wrapper contributes to a Morningstar record, from its four numbers.\<close>

definition wrapper_accounts :: "string \<Rightarrow> (rat \<times> rat \<times> rat \<times> rat) option \<Rightarrow> pyval list" where
  "wrapper_accounts kind x =
     (case x of None \<Rightarrow> [] | Some (v, c, r, p) \<Rightarrow> [ms_account kind v c r p])"

definition wrapper_values :: "(rat \<times> rat \<times> rat \<times> rat) option \<Rightarrow> rat list" where
  "wrapper_values x = (case x of None \<Rightarrow> [] | Some (v, c, r, p) \<Rightarrow> [v])"

definition wrapper_performances :: "(rat \<times> rat \<times> rat \<times> rat) option \<Rightarrow> rat list" where
  "wrapper_performances x = (case x of None \<Rightarrow> [] | Some (v, c, r, p) \<Rightarrow> [p])"

text \<open>The arithmetic mean of a list of numbers, as a \<^verbatim>\<open>performance\<close> dictionary:
  empty for no numbers.\<close>

definition mean_entry :: "rat list \<Rightarrow> dict" where
  "mean_entry ps =
     (if ps = [] then [] else [(''oneYearReturn'', PNum (sum_list ps / of_nat (length ps)))])"

text \<open>The total of a record is the sum of the values of its accounts.\<close>

definition total_is_sum :: "dict \<Rightarrow> bool" where
  "total_is_sum d = (\<exists>vs. map (field ''value'') (accounts_of d) = map (\<lambda>v. Some (PNum v)) vs
       \<and> map_of d ''total_value'' = Some (PNum (sum_list vs)))"


section \<open>Basic facts\<close>

lemma ebind_simps [simp]: "ebind (Inl e) f = Inl e" "ebind (Inr x) f = f x"
  by (simp_all add: ebind_def)

lemma ebind_eq_Inr: "ebind m f = Inr y \<longleftrightarrow> (\<exists>x. m = Inr x \<and> f x = Inr y)"
  by (cases m) auto

lemma contains_ci_iff: "contains_ci text kw \<longleftrightarrow> sublist kw (lower text)"
proof
  assume "contains_ci text kw"
  then obtain pre mid post where "text = pre @ mid @ post" "lower mid = kw"
    by (auto simp: contains_ci_def)
  then have "lower text = lower pre @ kw @ lower post"
    by (simp add: lower_def)
  then show "sublist kw (lower text)"
    unfolding sublist_def by blast
next
  assume "sublist kw (lower text)"
  then obtain mid where m: "sublist mid text" "kw = map lower_char mid"
    unfolding lower_def using sublist_map_rightE by blast
  then obtain pre post where "text = pre @ mid @ post"
    by (auto simp: sublist_def)
  with m show "contains_ci text kw"
    unfolding contains_ci_def lower_def by blast
qed


section \<open>The extractors in closed form\<close>


lemma extract_aj_bell_eq:
  "extract_aj_bell t =
     (case re_search aj_isa_re t of
        None \<Rightarrow> Inr (record_of ''AJ Bell'' (aj_client_name t) [] 0 [])
      | Some m \<Rightarrow>
          ebind (aj_value t (whole m)) (\<lambda>v.
          ebind (aj_contributions t) (\<lambda>c.
          ebind (aj_performance t (whole m)) (\<lambda>p.
          ebind (aj_return_amount t) (\<lambda>r.
            Inr (record_of ''AJ Bell'' (aj_client_name t)
                   [aj_account (aj_account_number t) v c r p] v
                   [(''oneYearReturn'', PNum p)]))))))"
  by (simp add: extract_aj_bell_def aj_isa_block_def aj_sipp_block_def aj_summary_def
      record_of_def aj_account_def aj_client_name_def aj_account_number_def
      append_item_def add_item_def set_sub_item_def get_item_def first_of_def item_of_def
      Let_def ebind_def
      split: option.split sum.split)

lemma ms_section_block_eq:
  "ms_section_block kind t (record_of prov cn accs tv perf) =
     ebind (ms_fields kind t) (\<lambda>x.
       Inr (record_of prov cn (accs @ wrapper_accounts kind x)
              (tv + sum_list (wrapper_values x)) perf))"
  by (simp add: ms_section_block_def ms_fields_def record_of_def ms_account_def
      wrapper_accounts_def wrapper_values_def
      append_item_def add_item_def get_item_def item_of_def num_of_def Let_def ebind_def
      split: option.split sum.split)

lemma sum_items_ms:
  "sum_items ''performance'' (wrapper_accounts kind x @ ys) acc =
     sum_items ''performance'' ys (acc + sum_list (wrapper_performances x))"
  by (simp add: wrapper_accounts_def wrapper_performances_def ms_account_def item_of_def
      get_item_def num_of_def split: option.split)

lemma ms_summary_eq:
  "ms_summary (record_of prov cn (wrapper_accounts k1 i @ wrapper_accounts k2 s) tv []) =
     Inr (record_of prov cn (wrapper_accounts k1 i @ wrapper_accounts k2 s) tv
            (mean_entry (wrapper_performances i @ wrapper_performances s)))"
proof -
  have len: "length (wrapper_accounts k1 i @ wrapper_accounts k2 s) =
      length (wrapper_performances i @ wrapper_performances s)"
    by (simp add: wrapper_accounts_def wrapper_performances_def split: option.split)
  have nil: "wrapper_accounts k1 i @ wrapper_accounts k2 s = [] \<longleftrightarrow>
      wrapper_performances i @ wrapper_performances s = []"
    using len by (metis length_0_conv)
  have sum: "sum_items ''performance'' (wrapper_accounts k1 i @ wrapper_accounts k2 s) 0 =
      Inr (sum_list (wrapper_performances i @ wrapper_performances s))"
    using sum_items_ms [of k1 i "wrapper_accounts k2 s" 0]
      sum_items_ms [of k2 s "[]" "sum_list (wrapper_performances i)"]
    by simp
  show ?thesis
  proof (cases "wrapper_accounts k1 i @ wrapper_accounts k2 s = []")
    case True
    then show ?thesis
      using nil by (simp add: ms_summary_def record_of_def get_item_def mean_entry_def)
  next
    case False
    then have ne: "wrapper_performances i @ wrapper_performances s \<noteq> []"
      using nil by blast
    have "ms_summary (record_of prov cn (wrapper_accounts k1 i @ wrapper_accounts k2 s) tv []) =
        ebind (sum_items ''performance'' (wrapper_accounts k1 i @ wrapper_accounts k2 s) 0)
          (\<lambda>total. ebind (py_div total (length (wrapper_accounts k1 i @ wrapper_accounts k2 s)))
            (\<lambda>avg_perf. set_sub_item ''performance'' ''oneYearReturn'' (PNum avg_perf)
               (record_of prov cn (wrapper_accounts k1 i @ wrapper_accounts k2 s) tv [])))"
      using False by (simp add: ms_summary_def record_of_def get_item_def del: sum_items.simps)
    also have "\<dots> = Inr (record_of prov cn (wrapper_accounts k1 i @ wrapper_accounts k2 s) tv
            (mean_entry (wrapper_performances i @ wrapper_performances s)))"
      unfolding sum len using ne
      by (simp add: py_div_def set_sub_item_def record_of_def get_item_def mean_entry_def)
    finally show ?thesis .
  qed
qed

lemma extract_morningstar_eq:
  "extract_morningstar t =
     ebind (ms_client_name t) (\<lambda>cn.
     ebind (ms_fields ''ISA'' t) (\<lambda>i.
     ebind (ms_fields ''SIPP'' t) (\<lambda>s.
       Inr (record_of ''Morningstar'' cn
              (wrapper_accounts ''ISA'' i @ wrapper_accounts ''SIPP'' s)
              (sum_list (wrapper_values i @ wrapper_values s))
              (mean_entry (wrapper_performances i @ wrapper_performances s))))))"
proof -
  have start: "extract_morningstar t =
      ebind (ms_client_name t) (\<lambda>cn.
      ebind (ms_section_block ''ISA'' t (record_of ''Morningstar'' cn [] 0 [])) (\<lambda>data.
      ebind (ms_section_block ''SIPP'' t data) ms_summary))"
    by (simp add: extract_morningstar_def ms_client_name_def record_of_def Let_def
        split: option.split pyval.split)
  show ?thesis
    unfolding start ms_section_block_eq
    by (auto simp: ebind_def ms_section_block_eq ms_summary_eq split: sum.split)
qed


section \<open>Reading the records the extractors return\<close>


lemma record_of_reads [simp]:
  "accounts_of (record_of prov cn accs tv perf) = accs"
  "map_of (record_of prov cn accs tv perf) ''accounts'' = Some (PList accs)"
  "map_of (record_of prov cn accs tv perf) ''total_value'' = Some (PNum tv)"
  "map_of (record_of prov cn accs tv perf) ''performance'' = Some (PDict perf)"
  "map_of (record_of prov cn accs tv perf) ''client_name'' = Some cn"
  "map_of (record_of prov cn accs tv perf) ''provider'' = Some (PStr prov)"
  "map fst (record_of prov cn accs tv perf) =
     [''provider'', ''client_name'', ''accounts'', ''total_value'', ''performance'']"
  by (simp_all add: record_of_def accounts_of_def)

lemma fallback_reads [simp]:
  "accounts_of fallback_record = []"
  "map_of fallback_record ''accounts'' = Some (PList [])"
  "map_of fallback_record ''total_value'' = Some (PNum 0)"
  by (simp_all add: fallback_record_def accounts_of_def)

lemma aj_account_reads [simp]:
  "field ''type'' (aj_account an v c r p) = Some (PStr ''ISA'')"
  "field ''provider'' (aj_account an v c r p) = Some (PStr ''AJ Bell'')"
  "field ''account_number'' (aj_account an v c r p) = Some an"
  "field ''value'' (aj_account an v c r p) = Some (PNum v)"
  "field ''contributions'' (aj_account an v c r p) = Some (PNum c)"
  "field ''return'' (aj_account an v c r p) = Some (PNum r)"
  "field ''performance'' (aj_account an v c r p) = Some (PNum p)"
  "keys_of (aj_account an v c r p) =
     [''type'', ''provider'', ''account_number'', ''value'', ''contributions'', ''return'',
      ''performance'']"
  by (simp_all add: aj_account_def field_def keys_of_def)

lemma ms_account_reads [simp]:
  "field ''type'' (ms_account kind v c r p) = Some (PStr kind)"
  "field ''provider'' (ms_account kind v c r p) = Some (PStr ''Morningstar'')"
  "field ''account_number'' (ms_account kind v c r p) = None"
  "field ''value'' (ms_account kind v c r p) = Some (PNum v)"
  "field ''contributions'' (ms_account kind v c r p) = Some (PNum c)"
  "field ''return'' (ms_account kind v c r p) = Some (PNum r)"
  "field ''performance'' (ms_account kind v c r p) = Some (PNum p)"
  "keys_of (ms_account kind v c r p) =
     [''type'', ''provider'', ''value'', ''contributions'', ''return'', ''performance'']"
  by (simp_all add: ms_account_def field_def keys_of_def)

lemma wrapper_accounts_reads [simp]:
  "map (field ''value'') (wrapper_accounts kind x) = map (\<lambda>v. Some (PNum v)) (wrapper_values x)"
  "map (field ''performance'') (wrapper_accounts kind x) =
     map (\<lambda>p. Some (PNum p)) (wrapper_performances x)"
  "map (field ''type'') (wrapper_accounts kind x) = map (\<lambda>v. Some (PStr kind)) (wrapper_values x)"
  by (simp_all add: wrapper_accounts_def wrapper_values_def wrapper_performances_def
      split: option.split)

text \<open>Every successful run of an extractor, by cases.\<close>

lemma extract_aj_bell_cases:
  assumes "extract_aj_bell t = Inr d"
  obtains (no_isa) "re_search aj_isa_re t = None"
      "d = record_of ''AJ Bell'' (aj_client_name t) [] 0 []"
    | (isa) m v c p r where "re_search aj_isa_re t = Some m"
      "aj_value t (whole m) = Inr v" "aj_contributions t = Inr c"
      "aj_performance t (whole m) = Inr p" "aj_return_amount t = Inr r"
      "d = record_of ''AJ Bell'' (aj_client_name t)
             [aj_account (aj_account_number t) v c r p] v [(''oneYearReturn'', PNum p)]"
  using assms unfolding extract_aj_bell_eq
  by (auto simp: ebind_eq_Inr split: option.splits)

lemma extract_morningstar_cases:
  assumes "extract_morningstar t = Inr d"
  obtains cn i s where "ms_client_name t = Inr cn"
      "ms_fields ''ISA'' t = Inr i" "ms_fields ''SIPP'' t = Inr s"
      "d = record_of ''Morningstar'' cn
             (wrapper_accounts ''ISA'' i @ wrapper_accounts ''SIPP'' s)
             (sum_list (wrapper_values i @ wrapper_values s))
             (mean_entry (wrapper_performances i @ wrapper_performances s))"
  using assms unfolding extract_morningstar_eq
  by (auto simp: ebind_eq_Inr)

lemma main_cases:
  assumes "main t = Inr d"
  shows "extract_aj_bell t = Inr d \<or> extract_morningstar t = Inr d \<or> d = fallback_record"
  using assms by (auto simp: main_def Let_def split: if_splits)

lemma total_aj: "extract_aj_bell t = Inr d \<Longrightarrow> total_is_sum d"
proof (erule extract_aj_bell_cases)
  assume "d = record_of ''AJ Bell'' (aj_client_name t) [] 0 []"
  then show "total_is_sum d"
    unfolding total_is_sum_def by (intro exI [of _ "[]"]) simp
next
  fix m v c p r
  assume "d = record_of ''AJ Bell'' (aj_client_name t)
             [aj_account (aj_account_number t) v c r p] v [(''oneYearReturn'', PNum p)]"
  then show "total_is_sum d"
    unfolding total_is_sum_def by (intro exI [of _ "[v]"]) simp
qed

lemma total_ms: "extract_morningstar t = Inr d \<Longrightarrow> total_is_sum d"
proof (erule extract_morningstar_cases)
  fix cn i s
  assume "d = record_of ''Morningstar'' cn
             (wrapper_accounts ''ISA'' i @ wrapper_accounts ''SIPP'' s)
             (sum_list (wrapper_values i @ wrapper_values s))
             (mean_entry (wrapper_performances i @ wrapper_performances s))"
  then show "total_is_sum d"
    unfolding total_is_sum_def
    by (intro exI [of _ "wrapper_values i @ wrapper_values s"]) simp
qed

lemma total_fallback: "total_is_sum fallback_record"
  unfolding total_is_sum_def by (intro exI [of _ "[]"]) simp


section \<open>The classifier\<close>

text \<open>
  Claim C4. \<^verbatim>\<open>detect_provider\<close> applies case-insensitive containment rules in
  order, the first that applies deciding: "aj bell" or "ajbell" gives AJ_BELL;
  otherwise "morningstar" gives MORNINGSTAR; otherwise "cashflow" or "574611" gives
  CASHFLOW; otherwise UNKNOWN. A text with both "aj bell" and "morningstar" is AJ_BELL.
  The function is total, so a label is always returned.
\<close>

theorem classify_rules:
  "detect_provider t =
     (if contains_ci t ''aj bell'' \<or> contains_ci t ''ajbell'' then AJ_BELL
      else if contains_ci t ''morningstar'' then MORNINGSTAR
      else if contains_ci t ''cashflow'' \<or> contains_ci t ''574611'' then CASHFLOW
      else UNKNOWN)
   \<and> (contains_ci t ''aj bell'' \<and> contains_ci t ''morningstar'' \<longrightarrow> detect_provider t = AJ_BELL)"
  by (simp add: detect_provider_def contains_ci_iff Let_def)

lemma both_keywords_example:
  "sublist ''aj bell'' (lower ''Morningstar report for an AJ Bell account'')"
  "sublist ''morningstar'' (lower ''Morningstar report for an AJ Bell account'')"
  by code_simp+

theorem classify_rules_witness:
  "contains_ci ''Morningstar report for an AJ Bell account'' ''aj bell''
   \<and> contains_ci ''Morningstar report for an AJ Bell account'' ''morningstar''
   \<and> detect_provider ''Morningstar report for an AJ Bell account'' = AJ_BELL"
  using classify_rules [of "''Morningstar report for an AJ Bell account''"]
    both_keywords_example
  by (simp add: contains_ci_iff)


section \<open>The fallback record\<close>

text \<open>
  Claim C3. When the classifier answers UNKNOWN or CASHFLOW, \<^verbatim>\<open>main\<close> returns,
  without raising, exactly the record with provider "Unknown", the error "Provider not
  recognized", no accounts and total value 0; the record has those four keys only, so
  no performance entry.
\<close>

theorem fallback_for_unsupported:
  assumes "detect_provider t = UNKNOWN \<or> detect_provider t = CASHFLOW"
  shows "main t = Inr [(''provider'', PStr ''Unknown''),
                       (''error'', PStr ''Provider not recognized''),
                       (''accounts'', PList []),
                       (''total_value'', PNum 0)]"
  using assms by (auto simp: main_def fallback_record_def)

lemma cashflow_example: "detect_provider ''Cashflow forecast 574611'' = CASHFLOW"
  by code_simp

theorem fallback_for_unsupported_witness:
  "detect_provider ''Cashflow forecast 574611'' = CASHFLOW
   \<and> main ''Cashflow forecast 574611'' =
       Inr [(''provider'', PStr ''Unknown''),
            (''error'', PStr ''Provider not recognized''),
            (''accounts'', PList []),
            (''total_value'', PNum 0)]"
  using fallback_for_unsupported [of "''Cashflow forecast 574611''"] cashflow_example
  by simp


section \<open>Exceptions in the supported paths\<close>

text \<open>
  Claim C1 says that the extractors never raise because every captured numeric text
  parses. The percentage pattern \<^verbatim>\<open>[\d.]+\<close> also captures texts with several dots;
  on the AJ Bell text below line 63 captures "1.2.3" and \<^verbatim>\<open>float\<close> on line 66
  raises ValueError, which \<^verbatim>\<open>main\<close> does not catch.
\<close>

theorem malformed_percentage_raises:
  "main ''AJ Bell ISA - Performance summary 1.2.3%'' = Inl ValueError"
  by code_simp

end
